theory Spec2Isabelle
  imports Main
begin

section \<open>JavaScript values\<close>

text \<open>
  The connector of \<^verbatim>\<open>src/connectors/quasar/quasarConnector.ts\<close> talks to an injected,
  untyped wallet object. What that object hands back is plain data (the type \<open>json\<close>:
  numbers are the integer-valued ones, strings are byte strings, an object has data
  properties only and the ordinary prototype) or a promise. A promise
  is recorded by how it settles; a fulfilled promise never holds a promise, as for the
  promises of the language.
\<close>

datatype json =
    Undefined
  | Null
  | Bool bool
  | Num int
  | Str string
  | Arr "json list"
  | Obj "(string \<times> json) list"

datatype settlement = Fulfilled json | RejectedWith json | Pending

datatype jsval = Data json | Promise settlement

text \<open>
  What a \<^verbatim>\<open>throw\<close> or a rejected promise carries: the two error classes of the
  module, the \<^verbatim>\<open>TypeError\<close> of the runtime (reading a property of
  \<^verbatim>\<open>undefined\<close> or \<^verbatim>\<open>null\<close>, calling what is not a function), or a
  value thrown by the wallet.
\<close>

datatype thrown =
    NoBscProviderError
  | UserRejectedRequestError
  | TypeError
  | ProviderError json

text \<open>The result of awaiting: a value, a raised error, or a wait that never ends.\<close>

datatype 'a outcome = Resolved 'a | Rejected thrown | NeverSettles

text \<open>\<^verbatim>\<open>!x\<close> is \<open>\<not> truthy x\<close>.\<close>

fun truthyData :: "json \<Rightarrow> bool" where
  "truthyData Undefined = False"
| "truthyData Null = False"
| "truthyData (Bool b) = b"
| "truthyData (Num n) = (n \<noteq> 0)"
| "truthyData (Str s) = (s \<noteq> [])"
| "truthyData (Arr xs) = True"
| "truthyData (Obj ps) = True"

fun truthy :: "jsval \<Rightarrow> bool" where
  "truthy (Data v) = truthyData v"
| "truthy (Promise s) = True"

text \<open>
  \<^verbatim>\<open>x.name\<close> for the data properties the module reads (\<^verbatim>\<open>result\<close>,
  \<^verbatim>\<open>code\<close>, \<^verbatim>\<open>length\<close>, \<^verbatim>\<open>net_version\<close>). An object is the list of its own
  properties, the first binding of a name being the property.
\<close>

fun getProp :: "json \<Rightarrow> string \<Rightarrow> thrown + json" where
  "getProp Undefined name = Inl TypeError"
| "getProp Null name = Inl TypeError"
| "getProp (Bool b) name = Inr Undefined"
| "getProp (Num n) name = Inr Undefined"
| "getProp (Str s) name = Inr (if name = ''length'' then Num (int (length s)) else Undefined)"
| "getProp (Arr xs) name = Inr (if name = ''length'' then Num (int (length xs)) else Undefined)"
| "getProp (Obj ps) name = Inr (case map_of ps name of None \<Rightarrow> Undefined | Some v \<Rightarrow> v)"

text \<open>\<^verbatim>\<open>x[0]\<close>.\<close>

fun index0 :: "jsval \<Rightarrow> thrown + jsval" where
  "index0 (Promise s) = Inr (Data Undefined)"
| "index0 (Data Undefined) = Inl TypeError"
| "index0 (Data Null) = Inl TypeError"
| "index0 (Data (Bool b)) = Inr (Data Undefined)"
| "index0 (Data (Num n)) = Inr (Data Undefined)"
| "index0 (Data (Str s)) = Inr (Data (case s of [] \<Rightarrow> Undefined | c # cs \<Rightarrow> Str [c]))"
| "index0 (Data (Arr xs)) = Inr (Data (case xs of [] \<Rightarrow> Undefined | x # ys \<Rightarrow> x))"
| "index0 (Data (Obj ps)) = Inr (Data (case map_of ps ''0'' of None \<Rightarrow> Undefined | Some v \<Rightarrow> v))"

text \<open>
  \<^verbatim>\<open>x.hasOwnProperty('result')\<close>. The method comes from the prototype; an object
  with an own property of that name hides it, and the own property is data, not a
  function.
\<close>

fun hasOwnResult :: "jsval \<Rightarrow> thrown + bool" where
  "hasOwnResult (Promise s) = Inr False"
| "hasOwnResult (Data Undefined) = Inl TypeError"
| "hasOwnResult (Data Null) = Inl TypeError"
| "hasOwnResult (Data (Obj ps)) =
     (if ''hasOwnProperty'' \<in> set (map fst ps) then Inl TypeError
      else Inr (''result'' \<in> set (map fst ps)))"
| "hasOwnResult (Data v) = Inr False"

section \<open>The response normalizer\<close>

text \<open>
  \<^verbatim>\<open>
  function parseSendReturn(sendReturn) {
    return sendReturn.hasOwnProperty('result') ? sendReturn.result : sendReturn
  }
  \<close>
\<close>

definition parseSendReturn :: "jsval \<Rightarrow> thrown + jsval" where
  "parseSendReturn sendReturn =
     (case hasOwnResult sendReturn of
        Inl e \<Rightarrow> Inl e
      | Inr own \<Rightarrow>
          if own
          then (case sendReturn of
                  Data v \<Rightarrow> map_sum id Data (getProp v ''result'')
                | Promise s \<Rightarrow> Inr (Data Undefined))
          else Inr sendReturn)"

text \<open>Sequencing of two steps that may throw.\<close>

definition andThen :: "thrown + 'a \<Rightarrow> ('a \<Rightarrow> thrown + 'b) \<Rightarrow> thrown + 'b" where
  "andThen r f = (case r of Inl e \<Rightarrow> Inl e | Inr v \<Rightarrow> f v)"

section \<open>The injected provider\<close>

text \<open>
  \<^verbatim>\<open>window.QuasarChain\<close> is owned by the wallet extension. A method slot is absent
  (falsy), holds something truthy that cannot be called, or holds a function; a call
  returns a value or throws one. The behaviour of a function is given per argument: within
  one operation of the connector no call is made twice with the same argument, in a
  fixed order, so this covers a wallet with a state of its own. Properties are data
  properties; a missing one reads as \<open>Undefined\<close>.
\<close>

datatype 'f slot = Absent | NotCallable | Fn 'f

datatype completion = Returns jsval | Throws json

datatype handler = HandleChainChanged | HandleAccountsChanged | HandleClose | HandleNetworkChanged

record provider =
  on :: "(string \<Rightarrow> handler \<Rightarrow> completion) slot"
  removeListener :: "(string \<Rightarrow> handler \<Rightarrow> completion) slot"
  send :: "(json \<Rightarrow> completion) slot"
  enable :: "completion slot"
  props :: "string \<Rightarrow> json"

text \<open>The global slot: \<open>None\<close> when no wallet is injected.\<close>

type_synonym window = "provider option"

text \<open>\<^verbatim>\<open>ConnectorUpdate\<close>, every field optional.\<close>

record connectorUpdate =
  upd_provider :: "provider option"
  upd_chainId :: "json option"
  upd_account :: "jsval option"

text \<open>
  What an operation does to the outside, in order: the calls it attempts on the wallet,
  the static properties it reads and writes, the warnings it logs and the notifications
  it gives to the framework (\<^verbatim>\<open>emitUpdate\<close>, \<^verbatim>\<open>emitDeactivate\<close> of the base class).
\<close>

datatype event =
    CallOn string handler
  | CallRemoveListener string handler
  | CallSend json
  | CallEnable
  | ReadProp string
  | WriteProp string json
  | Warning string
  | EmitUpdate connectorUpdate
  | EmitDeactivate

section \<open>Calls, awaits and sequencing\<close>

text \<open>A run of (part of) an operation: what it did, and how it ended.\<close>

type_synonym 'a run = "event list \<times> 'a outcome"

definition seq :: "'a run \<Rightarrow> ('a \<Rightarrow> 'b run) \<Rightarrow> 'b run" where
  "seq m k =
     (case m of
        (t, Resolved a) \<Rightarrow> (case k a of (t', r) \<Rightarrow> (t @ t', r))
      | (t, Rejected e) \<Rightarrow> (t, Rejected e)
      | (t, NeverSettles) \<Rightarrow> (t, NeverSettles))"

text \<open>\<^verbatim>\<open>window.QuasarChain.send(a)\<close> and \<^verbatim>\<open>window.QuasarChain.enable()\<close>.\<close>

definition callSend :: "provider \<Rightarrow> json \<Rightarrow> thrown + jsval" where
  "callSend p a =
     (case send p of
        Fn f \<Rightarrow> (case f a of Returns v \<Rightarrow> Inr v | Throws e \<Rightarrow> Inl (ProviderError e))
      | Absent \<Rightarrow> Inl TypeError
      | NotCallable \<Rightarrow> Inl TypeError)"

definition callEnable :: "provider \<Rightarrow> thrown + jsval" where
  "callEnable p =
     (case enable p of
        Fn c \<Rightarrow> (case c of Returns v \<Rightarrow> Inr v | Throws e \<Rightarrow> Inl (ProviderError e))
      | Absent \<Rightarrow> Inl TypeError
      | NotCallable \<Rightarrow> Inl TypeError)"

text \<open>
  \<^verbatim>\<open>await x\<close>; an \<^verbatim>\<open>async\<close> function settles in the same way on the value
  it returns.
\<close>

fun await :: "jsval \<Rightarrow> json outcome" where
  "await (Data v) = Resolved v"
| "await (Promise (Fulfilled v)) = Resolved v"
| "await (Promise (RejectedWith e)) = Rejected (ProviderError e)"
| "await (Promise Pending) = NeverSettles"

text \<open>
  \<^verbatim>\<open>await e.then(cb)\<close>, where evaluating \<^verbatim>\<open>e\<close> may throw. Plain data has no
  \<^verbatim>\<open>then\<close> method, so the call of it throws; a returned promise is taken to be a
  promise of the language.
\<close>

fun awaitThen :: "thrown + jsval \<Rightarrow> (json \<Rightarrow> thrown + jsval) \<Rightarrow> json outcome" where
  "awaitThen (Inl e) cb = Rejected e"
| "awaitThen (Inr (Data v)) cb = Rejected TypeError"
| "awaitThen (Inr (Promise (Fulfilled v))) cb =
     (case cb v of Inl e \<Rightarrow> Rejected e | Inr w \<Rightarrow> await w)"
| "awaitThen (Inr (Promise (RejectedWith e))) cb = Rejected (ProviderError e)"
| "awaitThen (Inr (Promise Pending)) cb = NeverSettles"

text \<open>
  \<^verbatim>\<open>await window.QuasarChain.send(m).then(cb)\<close> and
  \<^verbatim>\<open>await window.QuasarChain.enable().then(cb)\<close>: one request style, awaited.
\<close>

definition viaSend :: "provider \<Rightarrow> string \<Rightarrow> (json \<Rightarrow> thrown + jsval) \<Rightarrow> json outcome" where
  "viaSend p m cb = awaitThen (callSend p (Str m)) cb"

definition viaEnable :: "provider \<Rightarrow> (json \<Rightarrow> thrown + jsval) \<Rightarrow> json outcome" where
  "viaEnable p cb = awaitThen (callEnable p) cb"

text \<open>
  \<^verbatim>\<open>try { x = await e } catch { warning(false, msg) }\<close>, with the call that
  \<^verbatim>\<open>e\<close> attempts: the variable keeps its value when the attempt fails.
\<close>

definition tryAwait :: "event \<Rightarrow> string \<Rightarrow> json outcome \<Rightarrow> jsval \<Rightarrow> jsval run" where
  "tryAwait call msg r x =
     (case r of
        Resolved v \<Rightarrow> ([call], Resolved (Data v))
      | Rejected e \<Rightarrow> ([call, Warning msg], Resolved x)
      | NeverSettles \<Rightarrow> ([call], NeverSettles))"

text \<open>The callbacks given to \<^verbatim>\<open>then\<close>.\<close>

definition unwrap :: "json \<Rightarrow> thrown + jsval" where
  "unwrap sendReturn = parseSendReturn (Data sendReturn)"

definition unwrapFirst :: "json \<Rightarrow> thrown + jsval" where
  "unwrapFirst sendReturn = andThen (parseSendReturn (Data sendReturn)) index0"

text \<open>\<^verbatim>\<open>sendReturn => sendReturn && parseSendReturn(sendReturn)[0]\<close>\<close>

definition firstIfAny :: "json \<Rightarrow> thrown + jsval" where
  "firstIfAny sendReturn =
     (if truthyData sendReturn then unwrapFirst sendReturn else Inr (Data sendReturn))"

text \<open>The object-style request \<^verbatim>\<open>{ method: m }\<close>.\<close>

definition request :: "string \<Rightarrow> json" where
  "request m = Obj [(''method'', Str m)]"

section \<open>The event bridge\<close>

definition handleChainChanged :: "window \<Rightarrow> json \<Rightarrow> event list" where
  "handleChainChanged w chainId =
     [EmitUpdate \<lparr>upd_provider = w, upd_chainId = Some chainId, upd_account = None\<rparr>]"

definition handleAccountsChanged :: "string list \<Rightarrow> event list" where
  "handleAccountsChanged accounts =
     (if length accounts = 0 then [EmitDeactivate]
      else [EmitUpdate \<lparr>upd_provider = None, upd_chainId = None,
                        upd_account = Some (Data (Str (accounts ! 0)))\<rparr>])"

definition handleClose :: "event list" where
  "handleClose = [EmitDeactivate]"

definition handleNetworkChanged :: "window \<Rightarrow> json \<Rightarrow> event list" where
  "handleNetworkChanged w networkId =
     [EmitUpdate \<lparr>upd_provider = w, upd_chainId = Some networkId, upd_account = None\<rparr>]"

text \<open>The four subscriptions, in the order of \<^verbatim>\<open>activate\<close> and \<^verbatim>\<open>deactivate\<close>.\<close>

definition handlers :: "(string \<times> handler) list" where
  "handlers =
     [(''chainChanged'', HandleChainChanged),
      (''accountsChanged'', HandleAccountsChanged),
      (''close'', HandleClose),
      (''networkChanged'', HandleNetworkChanged)]"

text \<open>
  The calls \<^verbatim>\<open>m(name, handler)\<close> one after the other, \<^verbatim>\<open>m\<close> being truthy: the
  first that throws ends the sequence.
\<close>

fun callEach :: "(string \<Rightarrow> handler \<Rightarrow> event) \<Rightarrow> (string \<Rightarrow> handler \<Rightarrow> completion) slot \<Rightarrow>
    (string \<times> handler) list \<Rightarrow> unit run" where
  "callEach ev m [] = ([], Resolved ())"
| "callEach ev m ((name, h) # rest) =
     (case m of
        Fn f \<Rightarrow>
          (case f name h of
             Throws e \<Rightarrow> ([ev name h], Rejected (ProviderError e))
           | Returns v \<Rightarrow> seq ([ev name h], Resolved ()) (\<lambda>u. callEach ev m rest))
      | Absent \<Rightarrow> ([ev name h], Rejected TypeError)
      | NotCallable \<Rightarrow> ([ev name h], Rejected TypeError))"

section \<open>The connector's operations\<close>

subsection \<open>activate\<close>

text \<open>The subscriptions, made only when \<^verbatim>\<open>window.QuasarChain.on\<close> is truthy.\<close>

definition subscribe :: "provider \<Rightarrow> unit run" where
  "subscribe p =
     (case on p of
        Absent \<Rightarrow> ([], Resolved ())
      | NotCallable \<Rightarrow> callEach CallOn NotCallable handlers
      | Fn f \<Rightarrow> callEach CallOn (Fn f) handlers)"

text \<open>
  \<^verbatim>\<open>if (window.QuasarChain.isMetaMask) window.QuasarChain.autoRefreshOnNetworkChange = false\<close>:
  the wallet object is changed in place, so the run goes on with the changed one.
\<close>

definition metaMaskQuirk :: "provider \<Rightarrow> provider run" where
  "metaMaskQuirk p =
     (if truthyData (props p ''isMetaMask'')
      then ([ReadProp ''isMetaMask'', WriteProp ''autoRefreshOnNetworkChange'' (Bool False)],
            Resolved (p\<lparr>props := (props p)(''autoRefreshOnNetworkChange'' := Bool False)\<rparr>))
      else ([ReadProp ''isMetaMask''], Resolved p))"

text \<open>\<^verbatim>\<open>error.code\<close> in the \<^verbatim>\<open>catch\<close> block; only a value of the wallet can carry one.\<close>

fun errorCode :: "thrown \<Rightarrow> thrown + json" where
  "errorCode (ProviderError v) = getProp v ''code''"
| "errorCode e = Inr Undefined"

text \<open>
  \<^verbatim>\<open>
  let account
  try {
    account = await window.QuasarChain.send('eth_requestAccounts').then(
      sendReturn => parseSendReturn(sendReturn)[0])
  } catch (error) {
    if (error.code === 4001) { throw new UserRejectedRequestError() }
    warning(false, 'eth_requestAccounts was unsuccessful, falling back to enable')
  }
  \<close>
\<close>

definition requestAccounts :: "provider \<Rightarrow> jsval run" where
  "requestAccounts p =
     (case viaSend p ''eth_requestAccounts'' unwrapFirst of
        Resolved v \<Rightarrow> ([CallSend (Str ''eth_requestAccounts'')], Resolved (Data v))
      | NeverSettles \<Rightarrow> ([CallSend (Str ''eth_requestAccounts'')], NeverSettles)
      | Rejected error \<Rightarrow>
          (case errorCode error of
             Inl e \<Rightarrow> ([CallSend (Str ''eth_requestAccounts'')], Rejected e)
           | Inr code \<Rightarrow>
               if code = Num 4001
               then ([CallSend (Str ''eth_requestAccounts'')], Rejected UserRejectedRequestError)
               else ([CallSend (Str ''eth_requestAccounts''),
                      Warning ''eth_requestAccounts was unsuccessful, falling back to enable''],
                     Resolved (Data Undefined))))"

text \<open>
  \<^verbatim>\<open>
  if (!account) {
    account = await window.QuasarChain.enable().then(
      sendReturn => sendReturn && parseSendReturn(sendReturn)[0])
  }
  \<close>
\<close>

definition enableFallback :: "provider \<Rightarrow> jsval \<Rightarrow> jsval run" where
  "enableFallback p account =
     (if \<not> truthy account
      then (case viaEnable p firstIfAny of
              Resolved v \<Rightarrow> ([CallEnable], Resolved (Data v))
            | Rejected e \<Rightarrow> ([CallEnable], Rejected e)
            | NeverSettles \<Rightarrow> ([CallEnable], NeverSettles))
      else ([], Resolved account))"

text \<open>
  \<^verbatim>\<open>return { provider: window.QuasarChain, ...(account ? { account } : {}) }\<close>
\<close>

definition activate :: "window \<Rightarrow> connectorUpdate run" where
  "activate w =
     (case w of
        None \<Rightarrow> ([], Rejected NoBscProviderError)
      | Some p \<Rightarrow>
          seq (subscribe p) (\<lambda>u.
          seq (metaMaskQuirk p) (\<lambda>p'.
          seq (requestAccounts p') (\<lambda>account.
          seq (enableFallback p' account) (\<lambda>account'.
            ([], Resolved \<lparr>upd_provider = Some p', upd_chainId = None,
                           upd_account = (if truthy account' then Some account' else None)\<rparr>))))))"

subsection \<open>getProvider\<close>

definition getProvider :: "window \<Rightarrow> window run" where
  "getProvider w = ([], Resolved w)"

subsection \<open>getChainId\<close>

definition chainIdStyle1 :: "provider \<Rightarrow> jsval \<Rightarrow> jsval run" where
  "chainIdStyle1 p chainId =
     tryAwait (CallSend (Str ''eth_chainId''))
       ''eth_chainId was unsuccessful, falling back to net_version''
       (viaSend p ''eth_chainId'' unwrap) chainId"

definition chainIdStyle2 :: "provider \<Rightarrow> jsval \<Rightarrow> jsval run" where
  "chainIdStyle2 p chainId =
     (if \<not> truthy chainId
      then tryAwait (CallSend (Str ''net_version''))
             ''net_version was unsuccessful, falling back to net version v2''
             (viaSend p ''net_version'' unwrap) chainId
      else ([], Resolved chainId))"

text \<open>
  \<^verbatim>\<open>
  if (!chainId) {
    try { chainId = parseSendReturn(window.QuasarChain.send({ method: 'net_version' })) }
    catch { warning(false, '...') }
  }
  \<close>
  Nothing is awaited here: a promise that the call returns becomes the chain id as it is.
\<close>

definition chainIdStyle3 :: "provider \<Rightarrow> jsval \<Rightarrow> jsval run" where
  "chainIdStyle3 p chainId =
     (if \<not> truthy chainId
      then (case andThen (callSend p (request ''net_version'')) parseSendReturn of
              Inr v \<Rightarrow> ([CallSend (request ''net_version'')], Resolved v)
            | Inl e \<Rightarrow>
                ([CallSend (request ''net_version''),
                  Warning ''net_version v2 was unsuccessful, falling back to manual matches and static properties''],
                 Resolved chainId))
      else ([], Resolved chainId))"

text \<open>\<^verbatim>\<open>p.a || p.b || ...\<close>: a property is read only when all before it are falsy.\<close>

fun firstTruthy :: "provider \<Rightarrow> string list \<Rightarrow> event list \<times> json" where
  "firstTruthy p [] = ([], Undefined)"
| "firstTruthy p [name] = ([ReadProp name], props p name)"
| "firstTruthy p (name # names) =
     (if truthyData (props p name) then ([ReadProp name], props p name)
      else (case firstTruthy p names of (t, v) \<Rightarrow> (ReadProp name # t, v)))"

definition staticNames :: "string list" where
  "staticNames = [''chainId'', ''netVersion'', ''networkVersion'', ''_chainId'']"

definition chainIdStatic :: "provider \<Rightarrow> jsval \<Rightarrow> jsval run" where
  "chainIdStatic p chainId =
     (if \<not> truthy chainId
      then (if truthyData (props p ''isDapper'')
            then (case andThen (getProp (props p ''cachedResults'') ''net_version'') unwrap of
                    Inr v \<Rightarrow> ([ReadProp ''isDapper'', ReadProp ''cachedResults''], Resolved v)
                  | Inl e \<Rightarrow> ([ReadProp ''isDapper'', ReadProp ''cachedResults''], Rejected e))
            else (case firstTruthy p staticNames of
                    (t, v) \<Rightarrow> (ReadProp ''isDapper'' # t, Resolved (Data v))))
      else ([], Resolved chainId))"

definition getChainId :: "window \<Rightarrow> json run" where
  "getChainId w =
     (case w of
        None \<Rightarrow> ([], Rejected NoBscProviderError)
      | Some p \<Rightarrow>
          seq (chainIdStyle1 p (Data Undefined)) (\<lambda>c1.
          seq (chainIdStyle2 p c1) (\<lambda>c2.
          seq (chainIdStyle3 p c2) (\<lambda>c3.
          seq (chainIdStatic p c3) (\<lambda>chainId. ([], await chainId))))))"

subsection \<open>getAccount\<close>

definition accountStyle1 :: "provider \<Rightarrow> jsval \<Rightarrow> jsval run" where
  "accountStyle1 p account =
     tryAwait (CallSend (Str ''eth_accounts''))
       ''eth_accounts was unsuccessful, falling back to enable''
       (viaSend p ''eth_accounts'' unwrapFirst) account"

definition accountStyle2 :: "provider \<Rightarrow> jsval \<Rightarrow> jsval run" where
  "accountStyle2 p account =
     (if \<not> truthy account
      then tryAwait CallEnable
             ''enable was unsuccessful, falling back to eth_accounts v2''
             (viaEnable p unwrapFirst) account
      else ([], Resolved account))"

text \<open>
  \<^verbatim>\<open>
  if (!account) {
    account = parseSendReturn(window.QuasarChain.send({ method: 'eth_accounts' }))[0]
  }
  \<close>
  This statement stands in no \<^verbatim>\<open>try\<close> block.
\<close>

definition accountStyle3 :: "provider \<Rightarrow> jsval \<Rightarrow> jsval run" where
  "accountStyle3 p account =
     (if \<not> truthy account
      then (case andThen (andThen (callSend p (request ''eth_accounts'')) parseSendReturn) index0 of
              Inr v \<Rightarrow> ([CallSend (request ''eth_accounts'')], Resolved v)
            | Inl e \<Rightarrow> ([CallSend (request ''eth_accounts'')], Rejected e))
      else ([], Resolved account))"

definition getAccount :: "window \<Rightarrow> json run" where
  "getAccount w =
     (case w of
        None \<Rightarrow> ([], Rejected NoBscProviderError)
      | Some p \<Rightarrow>
          seq (accountStyle1 p (Data Undefined)) (\<lambda>a1.
          seq (accountStyle2 p a1) (\<lambda>a2.
          seq (accountStyle3 p a2) (\<lambda>account. ([], await account)))))"

subsection \<open>deactivate\<close>

definition deactivate :: "window \<Rightarrow> unit run" where
  "deactivate w =
     (case w of
        None \<Rightarrow> ([], Resolved ())
      | Some p \<Rightarrow>
          (case removeListener p of
             Absent \<Rightarrow> ([], Resolved ())
           | NotCallable \<Rightarrow> callEach CallRemoveListener NotCallable handlers
           | Fn f \<Rightarrow> callEach CallRemoveListener (Fn f) handlers))"

subsection \<open>isAuthorized\<close>

text \<open>
  \<^verbatim>\<open>x > 0\<close>. A string, an array or an object is converted to a number first; that
  conversion is the parameter \<open>coerce\<close>.
\<close>

fun greaterThanZero :: "(json \<Rightarrow> thrown + bool) \<Rightarrow> json \<Rightarrow> thrown + bool" where
  "greaterThanZero coerce (Num n) = Inr (0 < n)"
| "greaterThanZero coerce Undefined = Inr False"
| "greaterThanZero coerce Null = Inr False"
| "greaterThanZero coerce (Bool b) = Inr b"
| "greaterThanZero coerce v = coerce v"

text \<open>
  \<^verbatim>\<open>
  try {
    return await window.QuasarChain.send('eth_accounts').then(sendReturn => {
      if (parseSendReturn(sendReturn).length > 0) { return true } else { return false }
    })
  } catch { return false }
  \<close>
\<close>

definition nonEmpty :: "(json \<Rightarrow> thrown + bool) \<Rightarrow> json \<Rightarrow> thrown + jsval" where
  "nonEmpty coerce sendReturn =
     andThen (parseSendReturn (Data sendReturn)) (\<lambda>r.
     andThen (case r of Data v \<Rightarrow> getProp v ''length'' | Promise s \<Rightarrow> Inr Undefined) (\<lambda>n.
     andThen (greaterThanZero coerce n) (\<lambda>b. Inr (Data (Bool b)))))"

definition isAuthorized :: "(json \<Rightarrow> thrown + bool) \<Rightarrow> window \<Rightarrow> bool run" where
  "isAuthorized coerce w =
     (case w of
        None \<Rightarrow> ([], Resolved False)
      | Some p \<Rightarrow>
          (case viaSend p ''eth_accounts'' (nonEmpty coerce) of
             Resolved v \<Rightarrow> ([CallSend (Str ''eth_accounts'')], Resolved (v = Bool True))
           | Rejected e \<Rightarrow> ([CallSend (Str ''eth_accounts'')], Resolved False)
           | NeverSettles \<Rightarrow> ([CallSend (Str ''eth_accounts'')], NeverSettles)))"

section \<open>How a request style ends\<close>

text \<open>
  An awaited style has yielded nothing when it failed (a thrown error or a rejected
  promise) or resolved to a falsy value: these are the cases in which the \<^verbatim>\<open>if (!x)\<close>
  that follows lets the next style run.
\<close>

definition yieldsNothing :: "json outcome \<Rightarrow> bool" where
  "yieldsNothing r =
     (case r of Resolved v \<Rightarrow> \<not> truthyData v | Rejected e \<Rightarrow> True | NeverSettles \<Rightarrow> False)"

definition yieldsNothingSync :: "thrown + jsval \<Rightarrow> bool" where
  "yieldsNothingSync r = (case r of Inr v \<Rightarrow> \<not> truthy v | Inl e \<Rightarrow> True)"

text \<open>
  The \<^verbatim>\<open>eth_requestAccounts\<close> style of \<^verbatim>\<open>activate\<close> has failed softly when it
  resolved to no account, or failed with an error whose \<^verbatim>\<open>code\<close> can be read and is
  not \<^verbatim>\<open>4001\<close>.
\<close>

definition softFailure :: "json outcome \<Rightarrow> bool" where
  "softFailure r =
     (case r of
        Resolved v \<Rightarrow> \<not> truthyData v
      | Rejected e \<Rightarrow> (case errorCode e of Inl x \<Rightarrow> False | Inr c \<Rightarrow> c \<noteq> Num 4001)
      | NeverSettles \<Rightarrow> False)"

text \<open>What \<^verbatim>\<open>activate\<close> returns once it has come to \<^verbatim>\<open>enable()\<close>.\<close>

definition enableOutcome :: "provider \<Rightarrow> provider \<Rightarrow> connectorUpdate outcome" where
  "enableOutcome p p' =
     (case viaEnable p firstIfAny of
        Resolved b \<Rightarrow>
          Resolved \<lparr>upd_provider = Some p', upd_chainId = None,
                    upd_account = (if truthyData b then Some (Data b) else None)\<rparr>
      | Rejected x \<Rightarrow> Rejected x
      | NeverSettles \<Rightarrow> NeverSettles)"

section \<open>Example wallets\<close>

definition noProps :: "string \<Rightarrow> json" where
  "noProps name = Undefined"

text \<open>Answers every string-style request with a wrapped result.\<close>

definition modernWallet :: provider where
  "modernWallet =
     \<lparr>on = Absent, removeListener = Absent,
      send = Fn (\<lambda>a. Returns (Promise (Fulfilled (Obj [(''result'', Str ''0x38'')])))),
      enable = Absent, props = noProps\<rparr>"




text \<open>The wallet of the end-to-end scenario: events, and accounts on request.\<close>

definition listeningWallet :: provider where
  "listeningWallet =
     \<lparr>on = Fn (\<lambda>name h. Returns (Data Undefined)),
      removeListener = Fn (\<lambda>name h. Returns (Data Undefined)),
      send = Fn (\<lambda>a. Returns (Promise (Fulfilled (Arr [Str ''0xABC''])))),
      enable = Fn (Returns (Promise (Fulfilled (Arr [Str ''0xABC''])))),
      props = noProps\<rparr>"

text \<open>The user declines: \<^verbatim>\<open>send\<close> rejects with code 4001.\<close>

definition decliningWallet :: provider where
  "decliningWallet =
     \<lparr>on = Absent, removeListener = Absent,
      send = Fn (\<lambda>a. Returns (Promise (RejectedWith (Obj [(''code'', Num 4001)])))),
      enable = Fn (Returns (Promise (Fulfilled (Arr [Str ''0xABC''])))),
      props = noProps\<rparr>"

text \<open>\<^verbatim>\<open>send\<close> rejects with no reason (\<^verbatim>\<open>Promise.reject()\<close>); \<^verbatim>\<open>enable\<close> works.\<close>

definition bareRejectionWallet :: provider where
  "bareRejectionWallet =
     \<lparr>on = Absent, removeListener = Absent,
      send = Fn (\<lambda>a. Returns (Promise (RejectedWith Undefined))),
      enable = Fn (Returns (Promise (Fulfilled (Arr [Str ''0xABC''])))),
      props = noProps\<rparr>"

text \<open>Knows no \<^verbatim>\<open>eth_requestAccounts\<close>; \<^verbatim>\<open>enable\<close> works.\<close>

definition legacyWallet :: provider where
  "legacyWallet =
     \<lparr>on = Absent, removeListener = Absent,
      send = Fn (\<lambda>a. Returns (Promise (RejectedWith (Obj [(''code'', Num (- 32601))])))),
      enable = Fn (Returns (Promise (Fulfilled (Arr [Str ''0xABC''])))),
      props = noProps\<rparr>"

text \<open>Knows no \<^verbatim>\<open>eth_requestAccounts\<close>, and \<^verbatim>\<open>enable\<close> is rejected.\<close>

definition refusingWallet :: provider where
  "refusingWallet =
     \<lparr>on = Absent, removeListener = Absent,
      send = Fn (\<lambda>a. Returns (Promise (RejectedWith (Obj [(''code'', Num (- 32601))])))),
      enable = Fn (Returns (Promise (RejectedWith (Obj [(''message'', Str ''denied'')])))),
      props = noProps\<rparr>"

text \<open>
  Rejects every string-style request, throws on an object-style one, and rejects
  \<^verbatim>\<open>enable\<close>.
\<close>

definition stringOnlyWallet :: provider where
  "stringOnlyWallet =
     \<lparr>on = Absent, removeListener = Absent,
      send = Fn (\<lambda>a. case a of
                        Str m \<Rightarrow> Returns (Promise (RejectedWith (Obj [(''code'', Num (- 32601))])))
                      | _ \<Rightarrow> Throws (Obj [(''message'', Str ''unsupported request'')])),
      enable = Fn (Returns (Promise (RejectedWith (Obj [(''code'', Num (- 32601))])))),
      props = noProps\<rparr>"

text \<open>\<^verbatim>\<open>removeListener\<close> throws.\<close>

definition brokenRemovalWallet :: provider where
  "brokenRemovalWallet =
     \<lparr>on = Absent,
      removeListener = Fn (\<lambda>name h. Throws (Obj [(''message'', Str ''no such listener'')])),
      send = Absent, enable = Absent, props = noProps\<rparr>"

text \<open>No request style at all; the chain id is in the static properties.\<close>

definition dapperWallet :: provider where
  "dapperWallet =
     \<lparr>on = Absent, removeListener = Absent, send = Absent, enable = Absent,
      props = noProps(''isDapper'' := Bool True, ''chainId'' := Str ''1'',
                ''cachedResults'' := Obj [(''net_version'', Obj [(''result'', Str ''56'')])])\<rparr>"

definition staticWallet :: provider where
  "staticWallet =
     \<lparr>on = Absent, removeListener = Absent, send = Absent, enable = Absent,
      props = noProps(''networkVersion'' := Str ''97'', ''_chainId'' := Str ''0x61'')\<rparr>"

section \<open>Sequencing: basic facts\<close>

lemma seq_Resolved: "seq (t, Resolved a) k = (t @ fst (k a), snd (k a))"
  by (simp add: seq_def split: prod.splits)

lemma seq_Rejected: "seq (t, Rejected e) k = (t, Rejected e)"
  by (simp add: seq_def)

lemma seq_NeverSettles: "seq (t, NeverSettles) k = (t, NeverSettles)"
  by (simp add: seq_def)

lemmas seq_simps = seq_Resolved seq_Rejected seq_NeverSettles

section \<open>The response normalizer: properties\<close>

lemma owns_key: "map_of ps k = Some v \<Longrightarrow> k \<in> fst ` set ps"
  by (metis domI dom_map_of_conv_image_fst)

lemma hasOwnResult_throws:
  "hasOwnResult x = Inl e \<longleftrightarrow>
     e = TypeError \<and> (x = Data Undefined \<or> x = Data Null
       \<or> (\<exists>ps. x = Data (Obj ps) \<and> ''hasOwnProperty'' \<in> fst ` set ps))"
  by (induction x rule: hasOwnResult.induct) auto

lemma parseSendReturn_throws:
  "parseSendReturn y = Inl e \<Longrightarrow> hasOwnResult y = Inl e"
  by (induction y rule: hasOwnResult.induct)
     (auto simp: parseSendReturn_def split: if_splits)

text \<open>
  Claim C6, as amended. The normalizer is a function of its argument alone. The
  statement is about the responses of this development: plain data (objects with data
  properties and the ordinary prototype) and promises. Applied to an object that owns a
  \<^verbatim>\<open>result\<close> property and owns no property named \<^verbatim>\<open>hasOwnProperty\<close>, it returns
  exactly the value of that property, also for \<^verbatim>\<open>result: undefined\<close>. Applied to any
  input other than \<^verbatim>\<open>undefined\<close> and \<^verbatim>\<open>null\<close> that owns neither a \<^verbatim>\<open>result\<close>
  property nor a property named \<^verbatim>\<open>hasOwnProperty\<close> (an array, a string, a promise)
  it returns the input unchanged. It throws, a \<^verbatim>\<open>TypeError\<close>, if and only if the
  input is \<^verbatim>\<open>undefined\<close>, is \<^verbatim>\<open>null\<close>, or is an object that owns a property
  named \<^verbatim>\<open>hasOwnProperty\<close>, which hides the inherited method and, being data, cannot
  be called.
\<close>

theorem parseSendReturn_unwraps:
  "(''hasOwnProperty'' \<notin> fst ` set ps \<and> map_of ps ''result'' = Some v
      \<longrightarrow> parseSendReturn (Data (Obj ps)) = Inr (Data v))
   \<and> (x \<noteq> Data Undefined \<and> x \<noteq> Data Null
       \<and> (\<forall>qs. x = Data (Obj qs) \<longrightarrow>
             ''hasOwnProperty'' \<notin> fst ` set qs \<and> ''result'' \<notin> fst ` set qs)
      \<longrightarrow> parseSendReturn x = Inr x)
   \<and> parseSendReturn (Data (Obj [(''result'', Undefined)])) = Inr (Data Undefined)
   \<and> parseSendReturn (Data (Arr xs)) = Inr (Data (Arr xs))
   \<and> (parseSendReturn y = Inl e
      \<longleftrightarrow> e = TypeError \<and> (y = Data Undefined \<or> y = Data Null
            \<or> (\<exists>rs. y = Data (Obj rs) \<and> ''hasOwnProperty'' \<in> fst ` set rs)))"
proof (intro conjI impI)
  assume "''hasOwnProperty'' \<notin> fst ` set ps \<and> map_of ps ''result'' = Some v"
  then show "parseSendReturn (Data (Obj ps)) = Inr (Data v)"
    using owns_key [of ps "''result''" v] by (simp add: parseSendReturn_def)
next
  assume "x \<noteq> Data Undefined \<and> x \<noteq> Data Null
       \<and> (\<forall>qs. x = Data (Obj qs) \<longrightarrow>
             ''hasOwnProperty'' \<notin> fst ` set qs \<and> ''result'' \<notin> fst ` set qs)"
  then show "parseSendReturn x = Inr x"
    by (induction x rule: hasOwnResult.induct) (auto simp: parseSendReturn_def)
next
  show "parseSendReturn (Data (Obj [(''result'', Undefined)])) = Inr (Data Undefined)"
    by (simp add: parseSendReturn_def)
next
  show "parseSendReturn (Data (Arr xs)) = Inr (Data (Arr xs))"
    by (simp add: parseSendReturn_def)
next
  show "parseSendReturn y = Inl e
      \<longleftrightarrow> e = TypeError \<and> (y = Data Undefined \<or> y = Data Null
            \<or> (\<exists>rs. y = Data (Obj rs) \<and> ''hasOwnProperty'' \<in> fst ` set rs))"
  proof
    assume "parseSendReturn y = Inl e"
    then have "hasOwnResult y = Inl e" by (rule parseSendReturn_throws)
    then show "e = TypeError \<and> (y = Data Undefined \<or> y = Data Null
            \<or> (\<exists>rs. y = Data (Obj rs) \<and> ''hasOwnProperty'' \<in> fst ` set rs))"
      by (simp add: hasOwnResult_throws)
  next
    assume "e = TypeError \<and> (y = Data Undefined \<or> y = Data Null
            \<or> (\<exists>rs. y = Data (Obj rs) \<and> ''hasOwnProperty'' \<in> fst ` set rs))"
    then have "hasOwnResult y = Inl e"
      by (simp add: hasOwnResult_throws)
    then show "parseSendReturn y = Inl e"
      by (simp add: parseSendReturn_def)
  qed
qed

theorem parseSendReturn_unwraps_witness:
  "parseSendReturn (Data (Obj [(''result'', Str ''56'')])) = Inr (Data (Str ''56''))
   \<and> parseSendReturn (Data (Str ''56'')) = Inr (Data (Str ''56''))
   \<and> parseSendReturn (Data Null) = Inl TypeError
   \<and> parseSendReturn (Data (Obj [(''hasOwnProperty'', Bool True), (''result'', Str ''56'')]))
       = Inl TypeError"
proof -
  note t1 = parseSendReturn_unwraps [where ps = "[(''result'', Str ''56'')]"
      and v = "Str ''56''" and x = "Data (Str ''56'')" and xs = "[]"
      and y = "Data Null" and e = TypeError]
  note t2 = parseSendReturn_unwraps [where ps = "[(''result'', Str ''56'')]"
      and v = "Str ''56''" and x = "Data (Str ''56'')" and xs = "[]"
      and y = "Data (Obj [(''hasOwnProperty'', Bool True), (''result'', Str ''56'')])"
      and e = TypeError]
  have c1: "parseSendReturn (Data (Obj [(''result'', Str ''56'')])) = Inr (Data (Str ''56''))"
    using t1 [THEN conjunct1] by simp
  have c2: "parseSendReturn (Data (Str ''56'')) = Inr (Data (Str ''56''))"
    using t1 [THEN conjunct2, THEN conjunct1] by simp
  have c3: "parseSendReturn (Data Null) = Inl TypeError"
    using t1 [THEN conjunct2, THEN conjunct2, THEN conjunct2, THEN conjunct2] by simp
  have c4: "parseSendReturn
        (Data (Obj [(''hasOwnProperty'', Bool True), (''result'', Str ''56'')])) = Inl TypeError"
    using t2 [THEN conjunct2, THEN conjunct2, THEN conjunct2, THEN conjunct2] by simp
  show ?thesis
    using c1 c2 c3 c4 by simp
qed

text \<open>
  Claim C6 as it is stated (the normalizer never fails, for any input, and returns the
  \<^verbatim>\<open>result\<close> of every object that owns one) does not hold:
  \<^verbatim>\<open>parseSendReturn(undefined)\<close> and \<^verbatim>\<open>parseSendReturn(null)\<close> throw, and so does
  \<^verbatim>\<open>parseSendReturn({hasOwnProperty: true, result: "56"})\<close>.
\<close>

theorem parseSendReturn_undefined_throws:
  "parseSendReturn (Data Undefined) = Inl TypeError
   \<and> parseSendReturn (Data Null) = Inl TypeError
   \<and> parseSendReturn (Data (Obj [(''hasOwnProperty'', Bool True), (''result'', Str ''56'')]))
       = Inl TypeError"
  by (simp add: parseSendReturn_def)

section \<open>The provider guard\<close>

text \<open>
  Claim C3. With the global slot empty, \<^verbatim>\<open>activate\<close>, \<^verbatim>\<open>getChainId\<close> and
  \<^verbatim>\<open>getAccount\<close> each fail with \<^verbatim>\<open>NoBscProviderError\<close>, having done nothing, whereas
  \<^verbatim>\<open>isAuthorized\<close> resolves to \<^verbatim>\<open>false\<close>.
\<close>

theorem provider_absent:
  "activate None = ([], Rejected NoBscProviderError)
   \<and> getChainId None = ([], Rejected NoBscProviderError)
   \<and> getAccount None = ([], Rejected NoBscProviderError)
   \<and> isAuthorized coerce None = ([], Resolved False)"
  by (simp add: activate_def getChainId_def getAccount_def isAuthorized_def)

text \<open>
  Claim C10. \<^verbatim>\<open>getProvider\<close> makes no presence check: for every state of the slot it
  resolves to the slot's value, \<^verbatim>\<open>undefined\<close> when the provider is absent, and never
  rejects.
\<close>

theorem getProvider_never_rejects:
  "getProvider w = ([], Resolved w) \<and> getProvider None = ([], Resolved None)"
  by (simp add: getProvider_def)

section \<open>The event bridge: properties\<close>

text \<open>
  Claim C8. On an empty accounts list the handler emits one deactivation and no update;
  on a non-empty list it emits one update whose account is the first element of the
  list: \<^verbatim>\<open>accountsChanged(["0xA","0xB"])\<close> gives an update with account
  \<^verbatim>\<open>"0xA"\<close>.
\<close>

theorem accountsChanged_reduction:
  "handleAccountsChanged [] = [EmitDeactivate]
   \<and> handleAccountsChanged (a # rest) =
       [EmitUpdate \<lparr>upd_provider = None, upd_chainId = None,
                    upd_account = Some (Data (Str a))\<rparr>]
   \<and> handleAccountsChanged [''0xA'', ''0xB''] =
       [EmitUpdate \<lparr>upd_provider = None, upd_chainId = None,
                    upd_account = Some (Data (Str ''0xA''))\<rparr>]"
  by (simp add: handleAccountsChanged_def)

section \<open>getChainId: properties\<close>

lemmas chainId_defs = getChainId_def chainIdStyle1_def chainIdStyle2_def chainIdStyle3_def
  chainIdStatic_def tryAwait_def






lemmas style_defs = viaSend_def viaEnable_def callSend_def callEnable_def unwrap_def
  unwrapFirst_def firstIfAny_def parseSendReturn_def andThen_def request_def



lemma firstTruthy_staticNames:
  "snd (firstTruthy p staticNames) =
     (if truthyData (props p ''chainId'') then props p ''chainId''
      else if truthyData (props p ''netVersion'') then props p ''netVersion''
      else if truthyData (props p ''networkVersion'') then props p ''networkVersion''
      else props p ''_chainId'')"
  by (simp add: staticNames_def split: prod.splits)

lemma getChainId_static:
  assumes "yieldsNothing (viaSend p ''eth_chainId'' unwrap)"
    and "yieldsNothing (viaSend p ''net_version'' unwrap)"
    and "yieldsNothingSync (andThen (callSend p (request ''net_version'')) parseSendReturn)"
  shows "truthyData (props p ''isDapper'') \<Longrightarrow>
           snd (getChainId (Some p)) =
             (case andThen (getProp (props p ''cachedResults'') ''net_version'') unwrap of
                Inl e \<Rightarrow> Rejected e | Inr v \<Rightarrow> await v)"
    and "truthyData (props p ''isDapper'') \<Longrightarrow> n \<in> set staticNames \<Longrightarrow>
           ReadProp n \<notin> set (fst (getChainId (Some p)))"
    and "truthyData (props p ''isDapper'') \<Longrightarrow>
           ReadProp ''cachedResults'' \<in> set (fst (getChainId (Some p)))"
    and "\<not> truthyData (props p ''isDapper'') \<Longrightarrow>
           snd (getChainId (Some p)) = Resolved (snd (firstTruthy p staticNames))"
  using assms
  by (auto simp add: chainId_defs seq_simps yieldsNothing_def yieldsNothingSync_def staticNames_def
       split: outcome.splits sum.splits prod.splits)

text \<open>
  Claim C7. When every request style of \<^verbatim>\<open>getChainId\<close> has yielded nothing, the
  static fallback decides. If the provider carries the \<^verbatim>\<open>isDapper\<close> flag, the chain
  id is the normalized \<^verbatim>\<open>cachedResults.net_version\<close> (a failure to read it is raised),
  the cache is read, and none of the four static properties is. Otherwise the result is
  the first truthy value among \<^verbatim>\<open>chainId\<close>, \<^verbatim>\<open>netVersion\<close>, \<^verbatim>\<open>networkVersion\<close>,
  \<^verbatim>\<open>_chainId\<close>, in that order (the value of \<^verbatim>\<open>_chainId\<close> when none is truthy).
\<close>

theorem getChainId_static_fallback:
  assumes "yieldsNothing (viaSend p ''eth_chainId'' unwrap)"
    and "yieldsNothing (viaSend p ''net_version'' unwrap)"
    and "yieldsNothingSync (andThen (callSend p (request ''net_version'')) parseSendReturn)"
  shows "(truthyData (props p ''isDapper'') \<longrightarrow>
            snd (getChainId (Some p)) =
              (case andThen (getProp (props p ''cachedResults'') ''net_version'') unwrap of
                 Inl e \<Rightarrow> Rejected e | Inr v \<Rightarrow> await v)
            \<and> ReadProp ''cachedResults'' \<in> set (fst (getChainId (Some p)))
            \<and> (\<forall>n \<in> set staticNames. ReadProp n \<notin> set (fst (getChainId (Some p)))))
       \<and> (\<not> truthyData (props p ''isDapper'') \<longrightarrow>
            snd (getChainId (Some p)) =
              Resolved
                (if truthyData (props p ''chainId'') then props p ''chainId''
                 else if truthyData (props p ''netVersion'') then props p ''netVersion''
                 else if truthyData (props p ''networkVersion'') then props p ''networkVersion''
                 else props p ''_chainId''))"
  using getChainId_static [OF assms] by (simp add: firstTruthy_staticNames)

theorem getChainId_static_fallback_witness:
  "snd (getChainId (Some dapperWallet)) = Resolved (Str ''56'')
   \<and> ReadProp ''chainId'' \<notin> set (fst (getChainId (Some dapperWallet)))
   \<and> snd (getChainId (Some staticWallet)) = Resolved (Str ''97'')"
proof -
  have d: "yieldsNothing (viaSend dapperWallet ''eth_chainId'' unwrap)"
    "yieldsNothing (viaSend dapperWallet ''net_version'' unwrap)"
    "yieldsNothingSync (andThen (callSend dapperWallet (request ''net_version'')) parseSendReturn)"
    by (simp_all add: dapperWallet_def style_defs yieldsNothing_def yieldsNothingSync_def)
  have s: "yieldsNothing (viaSend staticWallet ''eth_chainId'' unwrap)"
    "yieldsNothing (viaSend staticWallet ''net_version'' unwrap)"
    "yieldsNothingSync (andThen (callSend staticWallet (request ''net_version'')) parseSendReturn)"
    by (simp_all add: staticWallet_def style_defs yieldsNothing_def yieldsNothingSync_def)
  have pd: "props dapperWallet = noProps(''isDapper'' := Bool True, ''chainId'' := Str ''1'',
                ''cachedResults'' := Obj [(''net_version'', Obj [(''result'', Str ''56'')])])"
    by (simp add: dapperWallet_def)
  have ps: "props staticWallet =
      noProps(''networkVersion'' := Str ''97'', ''_chainId'' := Str ''0x61'')"
    by (simp add: staticWallet_def)
  show ?thesis
    using getChainId_static_fallback [OF d] getChainId_static_fallback [OF s]
    by (simp add: pd ps noProps_def staticNames_def style_defs)
qed

section \<open>activate: properties\<close>

lemma quirk_resolves: "\<exists>t p'. metaMaskQuirk p = (t, Resolved p')"
  by (cases "truthyData (props p ''isMetaMask'')") (simp_all add: metaMaskQuirk_def)

lemma quirk_viaSend:
  "snd (metaMaskQuirk p) = Resolved p' \<Longrightarrow> viaSend p' m cb = viaSend p m cb"
  by (auto simp: metaMaskQuirk_def viaSend_def callSend_def split: if_splits)

lemma quirk_viaEnable:
  "snd (metaMaskQuirk p) = Resolved p' \<Longrightarrow> viaEnable p' cb = viaEnable p cb"
  by (auto simp: metaMaskQuirk_def viaEnable_def callEnable_def split: if_splits)

lemma activate_after_subscribe:
  assumes "snd (subscribe p) = Resolved ()" "snd (metaMaskQuirk p) = Resolved p'"
  shows "snd (activate (Some p)) =
     snd (seq (requestAccounts p') (\<lambda>account.
          seq (enableFallback p' account) (\<lambda>account'.
            ([], Resolved \<lparr>upd_provider = Some p', upd_chainId = None,
                           upd_account = (if truthy account' then Some account' else None)\<rparr>))))"
  using assms
  by (cases "subscribe p"; cases "metaMaskQuirk p") (simp add: activate_def seq_simps)

lemma requestAccounts_resolved:
  "viaSend p ''eth_requestAccounts'' unwrapFirst = Resolved a \<Longrightarrow>
   requestAccounts p = ([CallSend (Str ''eth_requestAccounts'')], Resolved (Data a))"
  by (simp add: requestAccounts_def)

lemma requestAccounts_user_rejected:
  "viaSend p ''eth_requestAccounts'' unwrapFirst = Rejected e \<Longrightarrow>
   errorCode e = Inr (Num 4001) \<Longrightarrow>
   requestAccounts p =
     ([CallSend (Str ''eth_requestAccounts'')], Rejected UserRejectedRequestError)"
  by (simp add: requestAccounts_def)

lemma requestAccounts_soft:
  "softFailure (viaSend p ''eth_requestAccounts'' unwrapFirst) \<Longrightarrow>
   \<exists>t a. requestAccounts p = (t, Resolved a) \<and> \<not> truthy a"
  by (cases "viaSend p ''eth_requestAccounts'' unwrapFirst")
     (auto simp: requestAccounts_def softFailure_def split: sum.splits)

lemma enableFallback_run:
  "\<not> truthy account \<Longrightarrow>
   enableFallback p account =
     ([CallEnable], case viaEnable p firstIfAny of
                      Resolved v \<Rightarrow> Resolved (Data v)
                    | Rejected e \<Rightarrow> Rejected e
                    | NeverSettles \<Rightarrow> NeverSettles)"
  by (simp add: enableFallback_def split: outcome.splits)

lemma enableFallback_skip:
  "truthy account \<Longrightarrow> enableFallback p account = ([], Resolved account)"
  by (simp add: enableFallback_def)

lemma activate_account_from_send:
  assumes "snd (subscribe p) = Resolved ()" "snd (metaMaskQuirk p) = Resolved p'"
    and "viaSend p ''eth_requestAccounts'' unwrapFirst = Resolved a" "truthyData a"
  shows "snd (activate (Some p)) =
     Resolved \<lparr>upd_provider = Some p', upd_chainId = None, upd_account = Some (Data a)\<rparr>"
proof -
  have "viaSend p' ''eth_requestAccounts'' unwrapFirst = Resolved a"
    using assms(2,3) by (simp add: quirk_viaSend)
  then have "requestAccounts p' = ([CallSend (Str ''eth_requestAccounts'')], Resolved (Data a))"
    by (rule requestAccounts_resolved)
  then show ?thesis
    using assms(1,2,4)
    by (simp add: activate_after_subscribe seq_simps enableFallback_skip)
qed

lemma activate_via_enable:
  assumes "snd (subscribe p) = Resolved ()" "snd (metaMaskQuirk p) = Resolved p'"
    and "softFailure (viaSend p ''eth_requestAccounts'' unwrapFirst)"
  shows "snd (activate (Some p)) = enableOutcome p p'"
proof -
  have "softFailure (viaSend p' ''eth_requestAccounts'' unwrapFirst)"
    using assms(2,3) by (simp add: quirk_viaSend)
  then obtain t a where ra: "requestAccounts p' = (t, Resolved a)" "\<not> truthy a"
    using requestAccounts_soft by blast
  have ve: "viaEnable p' firstIfAny = viaEnable p firstIfAny"
    using assms(2) by (rule quirk_viaEnable)
  show ?thesis
    using assms(1,2) ra ve
    by (simp add: activate_after_subscribe seq_simps enableFallback_run enableOutcome_def
        split: outcome.splits)
qed

text \<open>How \<^verbatim>\<open>activate\<close> ends, once the subscriptions are made.\<close>

lemma activate_outcome:
  assumes "snd (subscribe p) = Resolved ()" "snd (metaMaskQuirk p) = Resolved p'"
  shows "snd (activate (Some p)) =
     (case viaSend p ''eth_requestAccounts'' unwrapFirst of
        NeverSettles \<Rightarrow> NeverSettles
      | Resolved a \<Rightarrow>
          if truthyData a
          then Resolved \<lparr>upd_provider = Some p', upd_chainId = None,
                         upd_account = Some (Data a)\<rparr>
          else enableOutcome p p'
      | Rejected e \<Rightarrow>
          (case errorCode e of
             Inl x \<Rightarrow> Rejected x
           | Inr c \<Rightarrow> if c = Num 4001 then Rejected UserRejectedRequestError
                      else enableOutcome p p'))"
proof (cases "viaSend p ''eth_requestAccounts'' unwrapFirst")
  case (Resolved a)
  show ?thesis
  proof (cases "truthyData a")
    case True
    with Resolved assms show ?thesis by (simp add: activate_account_from_send)
  next
    case False
    with Resolved have "softFailure (viaSend p ''eth_requestAccounts'' unwrapFirst)"
      by (simp add: softFailure_def)
    with assms Resolved False show ?thesis
      by (simp add: activate_via_enable)
  qed
next
  case (Rejected e)
  have v: "viaSend p' ''eth_requestAccounts'' unwrapFirst = Rejected e"
    using assms(2) Rejected by (simp add: quirk_viaSend)
  show ?thesis
  proof (cases "errorCode e")
    case (Inl x)
    with v have "requestAccounts p' = ([CallSend (Str ''eth_requestAccounts'')], Rejected x)"
      by (simp add: requestAccounts_def)
    with assms Rejected Inl show ?thesis
      by (simp add: activate_after_subscribe seq_simps)
  next
    case (Inr c)
    show ?thesis
    proof (cases "c = Num 4001")
      case True
      with v Inr have "requestAccounts p' =
          ([CallSend (Str ''eth_requestAccounts'')], Rejected UserRejectedRequestError)"
        by (simp add: requestAccounts_def)
      with assms Rejected Inr True show ?thesis
        by (simp add: activate_after_subscribe seq_simps)
    next
      case False
      with Rejected Inr have "softFailure (viaSend p ''eth_requestAccounts'' unwrapFirst)"
        by (simp add: softFailure_def)
      with assms Rejected Inr False show ?thesis
        by (simp add: activate_via_enable)
    qed
  qed
next
  case NeverSettles
  then have "viaSend p' ''eth_requestAccounts'' unwrapFirst = NeverSettles"
    using assms(2) by (simp add: quirk_viaSend)
  then have "requestAccounts p' = ([CallSend (Str ''eth_requestAccounts'')], NeverSettles)"
    by (simp add: requestAccounts_def)
  with assms NeverSettles show ?thesis
    by (simp add: activate_after_subscribe seq_simps)
qed

lemma callEach_events:
  "ev \<in> set (fst (callEach mk m l)) \<Longrightarrow> \<exists>name h. ev = mk name h"
proof (induction l)
  case Nil
  then show ?case by simp
next
  case (Cons a l)
  obtain name h where a: "a = (name, h)" by (cases a)
  show ?case
  proof (cases m)
    case (Fn f)
    with Cons a show ?thesis
      by (cases "f name h") (auto simp: seq_simps)
  qed (use Cons a in auto)
qed

lemma subscribe_events: "CallEnable \<notin> set (fst (subscribe p))"
  using callEach_events [of CallEnable CallOn]
  by (cases "on p") (auto simp: subscribe_def)

lemma quirk_events: "CallEnable \<notin> set (fst (metaMaskQuirk p))"
  by (simp add: metaMaskQuirk_def)

lemma activate_trace_user_rejected:
  assumes "snd (subscribe p) = Resolved ()"
    and "viaSend p ''eth_requestAccounts'' unwrapFirst = Rejected e"
    and "errorCode e = Inr (Num 4001)"
  shows "fst (activate (Some p)) =
     fst (subscribe p) @ fst (metaMaskQuirk p) @ [CallSend (Str ''eth_requestAccounts'')]"
proof -
  obtain tq p' where q: "metaMaskQuirk p = (tq, Resolved p')"
    using quirk_resolves by blast
  then have "snd (metaMaskQuirk p) = Resolved p'" by simp
  then have "viaSend p' ''eth_requestAccounts'' unwrapFirst = Rejected e"
    using assms(2) by (simp add: quirk_viaSend)
  then have "requestAccounts p' =
      ([CallSend (Str ''eth_requestAccounts'')], Rejected UserRejectedRequestError)"
    using assms(3) by (rule requestAccounts_user_rejected)
  with assms(1) q show ?thesis
    by (cases "subscribe p") (simp add: activate_def seq_simps)
qed

text \<open>
  The part of claim C2 that the code keeps: when the \<^verbatim>\<open>eth_requestAccounts\<close> style
  fails with an error whose code is 4001, \<^verbatim>\<open>activate\<close> raises
  \<^verbatim>\<open>UserRejectedRequestError\<close> right after that send, and \<^verbatim>\<open>enable()\<close> is not
  attempted; when it fails with an error whose code can be read and is not 4001,
  \<^verbatim>\<open>activate\<close> ends as the \<^verbatim>\<open>enable()\<close> style does.
\<close>

lemma activate_user_rejected:
  assumes "snd (subscribe p) = Resolved ()"
    and "viaSend p ''eth_requestAccounts'' unwrapFirst = Rejected e"
    and "errorCode e = Inr (Num 4001)"
  shows "snd (activate (Some p)) = Rejected UserRejectedRequestError"
    and "CallEnable \<notin> set (fst (activate (Some p)))"
    and "last (fst (activate (Some p))) = CallSend (Str ''eth_requestAccounts'')"
proof -
  obtain tq p' where "metaMaskQuirk p = (tq, Resolved p')"
    using quirk_resolves by blast
  then have q: "snd (metaMaskQuirk p) = Resolved p'" by simp
  show "snd (activate (Some p)) = Rejected UserRejectedRequestError"
    using assms by (simp add: activate_outcome [OF assms(1) q])
  show "CallEnable \<notin> set (fst (activate (Some p)))"
    using subscribe_events [of p] quirk_events [of p]
    by (simp add: activate_trace_user_rejected [OF assms])
  show "last (fst (activate (Some p))) = CallSend (Str ''eth_requestAccounts'')"
    by (simp add: activate_trace_user_rejected [OF assms])
qed

lemma activate_other_failure:
  assumes "snd (subscribe p) = Resolved ()" "snd (metaMaskQuirk p) = Resolved p'"
    and "viaSend p ''eth_requestAccounts'' unwrapFirst = Rejected e"
    and "errorCode e = Inr c" "c \<noteq> Num 4001"
  shows "snd (activate (Some p)) = enableOutcome p p'"
  using assms(3-5) by (simp add: activate_outcome [OF assms(1,2)])

lemmas activate_defs = activate_def subscribe_def metaMaskQuirk_def requestAccounts_def
  enableFallback_def handlers_def noProps_def

text \<open>
  Claim C2, at the input where the code leaves it. The claim is that every failure of the
  \<^verbatim>\<open>eth_requestAccounts\<close> send other than a rejection with code 4001 makes the chain
  go on to \<^verbatim>\<open>enable()\<close>. When the send rejects with no reason
  (the error value is \<^verbatim>\<open>undefined\<close>), reading \<^verbatim>\<open>error.code\<close> in the
  \<^verbatim>\<open>catch\<close> block throws: \<^verbatim>\<open>activate\<close> raises a \<^verbatim>\<open>TypeError\<close> right after the
  send, and \<^verbatim>\<open>enable()\<close>, which would have given the account, is never called.
\<close>

theorem activate_rejection_without_reason:
  "viaSend bareRejectionWallet ''eth_requestAccounts'' unwrapFirst
     = Rejected (ProviderError Undefined)
   \<and> viaEnable bareRejectionWallet firstIfAny = Resolved (Str ''0xABC'')
   \<and> activate (Some bareRejectionWallet) =
       ([ReadProp ''isMetaMask'', CallSend (Str ''eth_requestAccounts'')], Rejected TypeError)"
  by (simp add: bareRejectionWallet_def activate_defs style_defs seq_simps)

text \<open>
  Claim C5, as amended. With the provider present and the subscriptions made,
  \<^verbatim>\<open>activate\<close> resolves to \<^verbatim>\<open>{provider, account?}\<close> when the
  \<^verbatim>\<open>eth_requestAccounts\<close> send yields a truthy account, and when that send fails softly
  (no account, or an error with a readable code other than 4001) and \<^verbatim>\<open>enable()\<close>
  resolves; the account field is present exactly when the account obtained is truthy, and
  the provider field is the injected object. When the send fails softly and the
  \<^verbatim>\<open>enable()\<close> style fails, that failure is raised to the caller as it is. So, with
  the error code readable, a failure of \<^verbatim>\<open>activate\<close> is the user rejection or the
  failure of \<^verbatim>\<open>enable()\<close>.
\<close>

theorem activate_outcomes:
  assumes "snd (subscribe p) = Resolved ()" and "snd (metaMaskQuirk p) = Resolved p'"
  shows "(viaSend p ''eth_requestAccounts'' unwrapFirst = Resolved a \<and> truthyData a
            \<longrightarrow> snd (activate (Some p)) =
                 Resolved \<lparr>upd_provider = Some p', upd_chainId = None,
                           upd_account = Some (Data a)\<rparr>)
       \<and> (softFailure (viaSend p ''eth_requestAccounts'' unwrapFirst)
          \<and> viaEnable p firstIfAny = Resolved b
            \<longrightarrow> snd (activate (Some p)) =
                 Resolved \<lparr>upd_provider = Some p', upd_chainId = None,
                           upd_account = (if truthyData b then Some (Data b) else None)\<rparr>)
       \<and> (softFailure (viaSend p ''eth_requestAccounts'' unwrapFirst)
          \<and> viaEnable p firstIfAny = Rejected x
            \<longrightarrow> snd (activate (Some p)) = Rejected x)
       \<and> (snd (activate (Some p)) = Resolved u
            \<longrightarrow> upd_provider u = Some p'
               \<and> (upd_account u = None \<or> (\<exists>acc. upd_account u = Some acc \<and> truthy acc)))
       \<and> ((\<forall>e. viaSend p ''eth_requestAccounts'' unwrapFirst = Rejected e
                \<longrightarrow> (\<exists>c. errorCode e = Inr c))
          \<and> snd (activate (Some p)) = Rejected y
            \<longrightarrow> y = UserRejectedRequestError
               \<or> (softFailure (viaSend p ''eth_requestAccounts'' unwrapFirst)
                  \<and> viaEnable p firstIfAny = Rejected y))"
proof (intro conjI impI)
  assume "viaSend p ''eth_requestAccounts'' unwrapFirst = Resolved a \<and> truthyData a"
  then show "snd (activate (Some p)) =
      Resolved \<lparr>upd_provider = Some p', upd_chainId = None, upd_account = Some (Data a)\<rparr>"
    using assms by (simp add: activate_account_from_send)
next
  assume "softFailure (viaSend p ''eth_requestAccounts'' unwrapFirst)
          \<and> viaEnable p firstIfAny = Resolved b"
  then show "snd (activate (Some p)) =
      Resolved \<lparr>upd_provider = Some p', upd_chainId = None,
                upd_account = (if truthyData b then Some (Data b) else None)\<rparr>"
    using assms by (simp add: activate_via_enable enableOutcome_def)
next
  assume "softFailure (viaSend p ''eth_requestAccounts'' unwrapFirst)
          \<and> viaEnable p firstIfAny = Rejected x"
  then show "snd (activate (Some p)) = Rejected x"
    using assms by (simp add: activate_via_enable enableOutcome_def)
next
  assume r: "snd (activate (Some p)) = Resolved u"
  then show "upd_provider u = Some p'"
    using activate_outcome [OF assms]
    by (auto simp: enableOutcome_def split: outcome.splits sum.splits if_splits)
  from r show "upd_account u = None \<or> (\<exists>acc. upd_account u = Some acc \<and> truthy acc)"
    using activate_outcome [OF assms]
    by (auto simp: enableOutcome_def split: outcome.splits sum.splits if_splits)
next
  assume "(\<forall>e. viaSend p ''eth_requestAccounts'' unwrapFirst = Rejected e
                \<longrightarrow> (\<exists>c. errorCode e = Inr c))
          \<and> snd (activate (Some p)) = Rejected y"
  then show "y = UserRejectedRequestError
      \<or> (softFailure (viaSend p ''eth_requestAccounts'' unwrapFirst)
         \<and> viaEnable p firstIfAny = Rejected y)"
    using activate_outcome [OF assms]
    by (auto simp: enableOutcome_def softFailure_def split: outcome.splits sum.splits if_splits)
qed

theorem activate_outcomes_witness:
  "snd (activate (Some listeningWallet)) =
     Resolved \<lparr>upd_provider = Some listeningWallet, upd_chainId = None,
               upd_account = Some (Data (Str ''0xABC''))\<rparr>
   \<and> snd (activate (Some legacyWallet)) =
     Resolved \<lparr>upd_provider = Some legacyWallet, upd_chainId = None,
               upd_account = Some (Data (Str ''0xABC''))\<rparr>
   \<and> snd (activate (Some refusingWallet)) =
     Rejected (ProviderError (Obj [(''message'', Str ''denied'')]))
   \<and> viaEnable refusingWallet firstIfAny =
     Rejected (ProviderError (Obj [(''message'', Str ''denied'')]))"
proof -
  have s1: "snd (subscribe listeningWallet) = Resolved ()"
    and q1: "snd (metaMaskQuirk listeningWallet) = Resolved listeningWallet"
    and h1: "viaSend listeningWallet ''eth_requestAccounts'' unwrapFirst = Resolved (Str ''0xABC'')
             \<and> truthyData (Str ''0xABC'')"
    by (simp_all add: listeningWallet_def activate_defs style_defs seq_simps)
  have s2: "snd (subscribe legacyWallet) = Resolved ()"
    and q2: "snd (metaMaskQuirk legacyWallet) = Resolved legacyWallet"
    and h2: "softFailure (viaSend legacyWallet ''eth_requestAccounts'' unwrapFirst)
             \<and> viaEnable legacyWallet firstIfAny = Resolved (Str ''0xABC'')"
    by (simp_all add: legacyWallet_def activate_defs style_defs seq_simps softFailure_def)
  have s3: "snd (subscribe refusingWallet) = Resolved ()"
    and q3: "snd (metaMaskQuirk refusingWallet) = Resolved refusingWallet"
    and h3: "softFailure (viaSend refusingWallet ''eth_requestAccounts'' unwrapFirst)
             \<and> viaEnable refusingWallet firstIfAny =
                 Rejected (ProviderError (Obj [(''message'', Str ''denied'')]))"
    and r3: "\<forall>e. viaSend refusingWallet ''eth_requestAccounts'' unwrapFirst = Rejected e
                \<longrightarrow> (\<exists>c. errorCode e = Inr c)"
    by (simp_all add: refusingWallet_def activate_defs style_defs seq_simps softFailure_def)
  note t1 = activate_outcomes [OF s1 q1, where a = "Str ''0xABC''" and b = Undefined
      and x = TypeError and y = TypeError
      and u = "\<lparr>upd_provider = Some listeningWallet, upd_chainId = None,
                upd_account = Some (Data (Str ''0xABC''))\<rparr>"]
  note t2 = activate_outcomes [OF s2 q2, where a = Undefined and b = "Str ''0xABC''"
      and x = TypeError and y = TypeError
      and u = "\<lparr>upd_provider = None, upd_chainId = None, upd_account = None\<rparr>"]
  note t3 = activate_outcomes [OF s3 q3, where a = Undefined and b = Undefined
      and x = "ProviderError (Obj [(''message'', Str ''denied'')])"
      and y = "ProviderError (Obj [(''message'', Str ''denied'')])"
      and u = "\<lparr>upd_provider = None, upd_chainId = None, upd_account = None\<rparr>"]
  have c1: "snd (activate (Some listeningWallet)) =
     Resolved \<lparr>upd_provider = Some listeningWallet, upd_chainId = None,
               upd_account = Some (Data (Str ''0xABC''))\<rparr>"
    using t1 [THEN conjunct1] h1 by (rule mp)
  have c2: "snd (activate (Some legacyWallet)) =
     Resolved \<lparr>upd_provider = Some legacyWallet, upd_chainId = None,
               upd_account = Some (Data (Str ''0xABC''))\<rparr>"
    using t2 [THEN conjunct2, THEN conjunct1] h2 by simp
  have c3: "snd (activate (Some refusingWallet)) =
     Rejected (ProviderError (Obj [(''message'', Str ''denied'')]))"
    using t3 [THEN conjunct2, THEN conjunct2, THEN conjunct1] h3 by (rule mp)
  have c4: "upd_provider \<lparr>upd_provider = Some listeningWallet, upd_chainId = None,
               upd_account = Some (Data (Str ''0xABC''))\<rparr> = Some listeningWallet"
    using t1 [THEN conjunct2, THEN conjunct2, THEN conjunct2, THEN conjunct1] c1 by simp
  have c5: "viaEnable refusingWallet firstIfAny =
     Rejected (ProviderError (Obj [(''message'', Str ''denied'')]))"
    using t3 [THEN conjunct2, THEN conjunct2, THEN conjunct2, THEN conjunct2] r3 c3 by simp
  show ?thesis
    using c1 c2 c3 c4 c5 by simp
qed

text \<open>
  Claim C5 as it is stated (provider absence and user rejection are the only failures)
  does not hold: here the provider is present, no error carries code 4001, and
  \<^verbatim>\<open>activate\<close> fails with the rejection of \<^verbatim>\<open>enable()\<close>.
\<close>

theorem activate_enable_failure_raised:
  "activate (Some refusingWallet) =
     ([ReadProp ''isMetaMask'', CallSend (Str ''eth_requestAccounts''),
       Warning ''eth_requestAccounts was unsuccessful, falling back to enable'',
       CallEnable],
      Rejected (ProviderError (Obj [(''message'', Str ''denied'')])))"
  by (simp add: refusingWallet_def activate_defs style_defs seq_simps)

section \<open>getAccount: properties\<close>

lemmas account_defs = getAccount_def accountStyle1_def accountStyle2_def accountStyle3_def
  tryAwait_def

text \<open>
  Claim C4, at the input where the code leaves it. The claim is that \<^verbatim>\<open>getAccount\<close>
  and \<^verbatim>\<open>getChainId\<close> never raise a soft failure: when every request style fails, the
  result is empty. For a wallet that rejects both string-style sends and
  \<^verbatim>\<open>enable()\<close> and throws on an object-style send, \<^verbatim>\<open>getChainId\<close> does so, its
  third style standing in a \<^verbatim>\<open>try\<close> block, whereas \<^verbatim>\<open>getAccount\<close>, whose third
  style stands in none, raises the error that the wallet threw.
\<close>

theorem getAccount_last_style_raises:
  "getAccount (Some stringOnlyWallet) =
     ([CallSend (Str ''eth_accounts''),
       Warning ''eth_accounts was unsuccessful, falling back to enable'',
       CallEnable,
       Warning ''enable was unsuccessful, falling back to eth_accounts v2'',
       CallSend (request ''eth_accounts'')],
      Rejected (ProviderError (Obj [(''message'', Str ''unsupported request'')])))
   \<and> snd (getChainId (Some stringOnlyWallet)) = Resolved Undefined"
  by (simp add: stringOnlyWallet_def account_defs chainId_defs style_defs seq_simps
      noProps_def staticNames_def)

section \<open>deactivate: properties\<close>

lemma deactivate_removes_all:
  assumes "removeListener p = Fn f"
    and "\<forall>(name, h) \<in> set handlers. \<exists>v. f name h = Returns v"
  shows "deactivate (Some p) =
     ([CallRemoveListener ''chainChanged'' HandleChainChanged,
       CallRemoveListener ''accountsChanged'' HandleAccountsChanged,
       CallRemoveListener ''close'' HandleClose,
       CallRemoveListener ''networkChanged'' HandleNetworkChanged],
      Resolved ())"
  using assms by (auto simp: deactivate_def handlers_def seq_simps)

lemma callEach_rejected:
  "snd (callEach ev (Fn f) l) = Rejected e \<Longrightarrow>
   \<exists>name h x. (name, h) \<in> set l \<and> f name h = Throws x \<and> e = ProviderError x"
proof (induction l)
  case Nil
  then show ?case by simp
next
  case (Cons a l)
  obtain name h where a: "a = (name, h)" by (cases a)
  show ?case
  proof (cases "f name h")
    case (Returns v)
    with Cons a show ?thesis by (auto simp: seq_simps)
  next
    case (Throws x)
    with Cons a show ?thesis by auto
  qed
qed

lemma callEach_settles: "snd (callEach ev m l) \<noteq> NeverSettles"
proof (induction l)
  case Nil
  then show ?case by simp
next
  case (Cons a l)
  obtain name h where a: "a = (name, h)" by (cases a)
  show ?case
  proof (cases m)
    case (Fn f)
    with Cons a show ?thesis
      by (cases "f name h") (auto simp: seq_simps)
  qed (use a in auto)
qed

text \<open>
  Claim C9, as amended. \<^verbatim>\<open>deactivate\<close> holds no state of its own: what it does
  depends on the global slot alone, whether or not \<^verbatim>\<open>activate\<close> ever ran and whether
  or not \<^verbatim>\<open>deactivate\<close> was called before. When the provider is absent or has no
  \<^verbatim>\<open>removeListener\<close>, it attempts no removal and raises no error. When the provider
  exposes \<^verbatim>\<open>removeListener\<close> and its calls return, every call of \<^verbatim>\<open>deactivate\<close>
  calls it for the four handlers, in the order of their registration, and raises no
  error. It raises an error only when \<^verbatim>\<open>removeListener\<close> is present and cannot be
  called or throws; it always returns or throws.
\<close>

theorem deactivate_teardown:
  "deactivate None = ([], Resolved ())
   \<and> (removeListener p = Absent \<longrightarrow> deactivate (Some p) = ([], Resolved ()))
   \<and> (removeListener p = Fn f \<and> (\<forall>(name, h) \<in> set handlers. \<exists>v. f name h = Returns v)
      \<longrightarrow> deactivate (Some p) =
            ([CallRemoveListener ''chainChanged'' HandleChainChanged,
              CallRemoveListener ''accountsChanged'' HandleAccountsChanged,
              CallRemoveListener ''close'' HandleClose,
              CallRemoveListener ''networkChanged'' HandleNetworkChanged],
             Resolved ()))
   \<and> (snd (deactivate w) = Rejected e
      \<longrightarrow> (\<exists>q. w = Some q
             \<and> (removeListener q = NotCallable \<and> e = TypeError
                \<or> (\<exists>g name h x. removeListener q = Fn g \<and> (name, h) \<in> set handlers
                      \<and> g name h = Throws x \<and> e = ProviderError x))))
   \<and> snd (deactivate w) \<noteq> NeverSettles"
proof (intro conjI impI)
  show "deactivate None = ([], Resolved ())"
    by (simp add: deactivate_def)
next
  assume "removeListener p = Absent"
  then show "deactivate (Some p) = ([], Resolved ())"
    by (simp add: deactivate_def)
next
  assume "removeListener p = Fn f \<and> (\<forall>(name, h) \<in> set handlers. \<exists>v. f name h = Returns v)"
  then show "deactivate (Some p) =
            ([CallRemoveListener ''chainChanged'' HandleChainChanged,
              CallRemoveListener ''accountsChanged'' HandleAccountsChanged,
              CallRemoveListener ''close'' HandleClose,
              CallRemoveListener ''networkChanged'' HandleNetworkChanged],
             Resolved ())"
    by (simp add: deactivate_removes_all)
next
  assume r: "snd (deactivate w) = Rejected e"
  then obtain q where w: "w = Some q"
    by (cases w) (auto simp: deactivate_def)
  show "\<exists>q. w = Some q
             \<and> (removeListener q = NotCallable \<and> e = TypeError
                \<or> (\<exists>g name h x. removeListener q = Fn g \<and> (name, h) \<in> set handlers
                      \<and> g name h = Throws x \<and> e = ProviderError x))"
  proof (cases "removeListener q")
    case Absent
    with r w show ?thesis by (simp add: deactivate_def)
  next
    case NotCallable
    with r w show ?thesis by (simp add: deactivate_def handlers_def)
  next
    case (Fn g)
    with r w have "snd (callEach CallRemoveListener (Fn g) handlers) = Rejected e"
      by (simp add: deactivate_def)
    from callEach_rejected [OF this] Fn w show ?thesis by blast
  qed
next
  show "snd (deactivate w) \<noteq> NeverSettles"
    using callEach_settles
    by (auto simp: deactivate_def split: option.splits slot.splits)
qed

theorem deactivate_teardown_witness:
  "deactivate (Some modernWallet) = ([], Resolved ())
   \<and> deactivate (Some listeningWallet) =
       ([CallRemoveListener ''chainChanged'' HandleChainChanged,
         CallRemoveListener ''accountsChanged'' HandleAccountsChanged,
         CallRemoveListener ''close'' HandleClose,
         CallRemoveListener ''networkChanged'' HandleNetworkChanged],
        Resolved ())
   \<and> snd (deactivate (Some brokenRemovalWallet)) =
       Rejected (ProviderError (Obj [(''message'', Str ''no such listener'')]))
   \<and> (\<exists>g name h x. removeListener brokenRemovalWallet = Fn g \<and> (name, h) \<in> set handlers
         \<and> g name h = Throws x)"
proof -
  have h1: "removeListener modernWallet = Absent"
    by (simp add: modernWallet_def)
  have h2: "removeListener listeningWallet = Fn (\<lambda>name h. Returns (Data Undefined))
      \<and> (\<forall>(name, h) \<in> set handlers. \<exists>v. (\<lambda>name h. Returns (Data Undefined)) name h = Returns v)"
    by (simp add: listeningWallet_def)
  have h3: "snd (deactivate (Some brokenRemovalWallet)) =
       Rejected (ProviderError (Obj [(''message'', Str ''no such listener'')]))"
    by (simp add: brokenRemovalWallet_def deactivate_def handlers_def)
  note t1 = deactivate_teardown [where p = modernWallet
      and f = "\<lambda>name h. Returns (Data Undefined)" and w = None and e = TypeError]
  note t2 = deactivate_teardown [where p = listeningWallet
      and f = "\<lambda>name h. Returns (Data Undefined)" and w = None and e = TypeError]
  note t3 = deactivate_teardown [where p = modernWallet
      and f = "\<lambda>name h. Returns (Data Undefined)" and w = "Some brokenRemovalWallet"
      and e = "ProviderError (Obj [(''message'', Str ''no such listener'')])"]
  have c1: "deactivate (Some modernWallet) = ([], Resolved ())"
    using t1 [THEN conjunct2, THEN conjunct1] h1 by (rule mp)
  have c2: "deactivate (Some listeningWallet) =
       ([CallRemoveListener ''chainChanged'' HandleChainChanged,
         CallRemoveListener ''accountsChanged'' HandleAccountsChanged,
         CallRemoveListener ''close'' HandleClose,
         CallRemoveListener ''networkChanged'' HandleNetworkChanged],
        Resolved ())"
    using t2 [THEN conjunct2, THEN conjunct2, THEN conjunct1] h2 by (rule mp)
  have c3: "\<exists>g name h x. removeListener brokenRemovalWallet = Fn g \<and> (name, h) \<in> set handlers
         \<and> g name h = Throws x"
    using t3 [THEN conjunct2, THEN conjunct2, THEN conjunct2, THEN conjunct1] h3
    by blast
  show ?thesis
    using c1 c2 c3 h3 by simp
qed

text \<open>
  Claim C9 as it is stated does not hold. No removal would be attempted before
  \<^verbatim>\<open>activate\<close> ever ran: on a wallet that exposes \<^verbatim>\<open>removeListener\<close>,
  \<^verbatim>\<open>deactivate\<close> calls it four times whatever happened before. And
  \<^verbatim>\<open>deactivate\<close> would never throw: it does when \<^verbatim>\<open>removeListener\<close> throws.
\<close>

theorem deactivate_removal_attempted_unconditionally:
  "fst (deactivate (Some listeningWallet)) =
     [CallRemoveListener ''chainChanged'' HandleChainChanged,
      CallRemoveListener ''accountsChanged'' HandleAccountsChanged,
      CallRemoveListener ''close'' HandleClose,
      CallRemoveListener ''networkChanged'' HandleNetworkChanged]
   \<and> deactivate (Some brokenRemovalWallet) =
       ([CallRemoveListener ''chainChanged'' HandleChainChanged],
        Rejected (ProviderError (Obj [(''message'', Str ''no such listener'')])))"
  by (simp add: listeningWallet_def brokenRemovalWallet_def deactivate_def handlers_def seq_simps)

end
